theory Spec2Isabelle
  imports Main "HOL-Library.Char_ord" "HOL-Library.List_Lexorder" "HOL-Library.Multiset"
begin

section \<open>Python values and exceptions\<close>

text \<open>
  The class \<open>TallySheet\<close> of \<open>Assignment5.py\<close> takes arguments of any Python type: a
  category is passed through \<open>str\<close>, a title is tested with \<open>isinstance(_, str)\<close> and an
  amount with \<open>isinstance(_, int)\<close> or compared with \<open>0\<close>. The arguments are therefore
  modelled by a datatype of Python values: integers (unbounded), strings, booleans and
  \<open>None\<close>. Floating-point amounts are outside the model. The semantics is Python 3:
  comparing a string or \<open>None\<close> with \<open>0\<close> raises \<open>TypeError\<close>, and \<open>bool\<close> is a subclass
  of \<open>int\<close> (\<open>True\<close> counts as 1, \<open>False\<close> as 0).

  Strings are lists of 8-bit characters, ordered by character code and then
  lexicographically, as Python orders \<open>str\<close> by code point.
\<close>

datatype pyval = PyInt int | PyStr string | PyBool bool | PyNone

datatype error = TypeError | ValueError | KeyError

text \<open>\<open>isinstance(v, str)\<close>: the string of a string value, nothing for any other value.\<close>

fun str_of :: "pyval \<Rightarrow> string option" where
  "str_of (PyStr s) = Some s"
| "str_of _ = None"

text \<open>
  The integer an amount stands for: \<open>isinstance(v, int)\<close> holds exactly where the result
  is not \<open>None\<close>, and \<open>v < 0\<close>, \<open>n + v\<close>, \<open>n - v\<close> are defined exactly there. A boolean
  amount is stored as its integer value.
\<close>

fun int_of :: "pyval \<Rightarrow> int option" where
  "int_of (PyInt i) = Some i"
| "int_of (PyBool b) = Some (if b then 1 else 0)"
| "int_of _ = None"

text \<open>Decimal digits of a natural number, most significant first.\<close>

fun digits :: "nat \<Rightarrow> string" where
  "digits n = (if n < 10 then [''0123456789'' ! n]
               else digits (n div 10) @ [''0123456789'' ! (n mod 10)])"

declare digits.simps [simp del]

text \<open>\<open>str(i)\<close> and \<open>"%d" % i\<close> for an integer \<open>i\<close>.\<close>

definition str_int :: "int \<Rightarrow> string" where
  "str_int i = (if i < 0 then CHR ''-'' # digits (nat (- i)) else digits (nat i))"

text \<open>Reading a string of decimal digits back, to say what \<open>digits\<close> writes.\<close>

definition dec_value :: "string \<Rightarrow> nat" where
  "dec_value s = foldl (\<lambda>acc c. 10 * acc + (of_char c - 48)) 0 s"

text \<open>\<open>str(v)\<close>.\<close>

fun py_str :: "pyval \<Rightarrow> string" where
  "py_str (PyInt i) = str_int i"
| "py_str (PyStr s) = s"
| "py_str (PyBool b) = (if b then ''True'' else ''False'')"
| "py_str PyNone = ''None''"

section \<open>Dictionaries\<close>

text \<open>
  \<open>self._categories\<close> is a Python \<open>dict\<close> from strings to integers. A dict iterates in
  insertion order, and \<open>itemsSortedByCount\<close> depends on that order, so the dict is an
  association list in insertion order. A Python dict has no key twice: \<open>dict_ok\<close>.
\<close>

type_synonym dict = "(string \<times> int) list"

definition dict_ok :: "dict \<Rightarrow> bool" where
  "dict_ok d = distinct (map fst d)"

text \<open>The invariant of the data model: no stored count is negative.\<close>

definition dict_nonneg :: "dict \<Rightarrow> bool" where
  "dict_nonneg d = (\<forall>(k, v) \<in> set d. 0 \<le> v)"

text \<open>\<open>d.keys()\<close> and \<open>d.items()\<close>, in iteration order.\<close>

definition dict_keys :: "dict \<Rightarrow> string list" where
  "dict_keys d = map fst d"

definition dict_items :: "dict \<Rightarrow> (string \<times> int) list" where
  "dict_items d = d"

text \<open>\<open>k in d.keys()\<close>.\<close>

definition dict_contains :: "dict \<Rightarrow> string \<Rightarrow> bool" where
  "dict_contains d k = (k \<in> set (dict_keys d))"

text \<open>\<open>d[k]\<close> as a read: \<open>None\<close> where Python raises \<open>KeyError\<close>.\<close>

fun dict_get :: "dict \<Rightarrow> string \<Rightarrow> int option" where
  "dict_get [] k = None"
| "dict_get ((k', v) # d) k = (if k' = k then Some v else dict_get d k)"

text \<open>\<open>d[k] = v\<close>: an existing key keeps its position, a new key goes to the end.\<close>

fun dict_set :: "dict \<Rightarrow> string \<Rightarrow> int \<Rightarrow> dict" where
  "dict_set [] k v = [(k, v)]"
| "dict_set ((k', v') # d) k v = (if k' = k then (k, v) # d else (k', v') # dict_set d k v)"

text \<open>\<open>del d[k]\<close> for a key that is present.\<close>

fun dict_del :: "dict \<Rightarrow> string \<Rightarrow> dict" where
  "dict_del [] k = []"
| "dict_del ((k', v') # d) k = (if k' = k then d else (k', v') # dict_del d k)"

section \<open>The tally sheet\<close>

text \<open>
  The object's attributes: \<open>priv_title\<close> is \<open>self._title\<close>, \<open>priv_categories\<close> is
  \<open>self._categories\<close> (an Isabelle name cannot start with an underscore), and
  \<open>pub_title\<close> is the attribute \<open>self.title\<close>, which does not exist (\<open>None\<close>) until
  \<open>setTitle\<close> assigns it.
\<close>

record sheet =
  priv_title :: string
  priv_categories :: dict
  pub_title :: "string option"

text \<open>
  A method call returns the exception it raised or its return value, together with the
  object as the call left it.
\<close>

type_synonym 'a outcome = "(error + 'a) \<times> sheet"

definition raise :: "error \<Rightarrow> sheet \<Rightarrow> 'a outcome" where
  "raise e self = (Inl e, self)"

definition return :: "'a \<Rightarrow> sheet \<Rightarrow> 'a outcome" where
  "return x self = (Inr x, self)"

text \<open>\<open>TallySheet(title)\<close>; the default title is \<open>"Tally Sheet"\<close>.\<close>

definition new_sheet :: "string \<Rightarrow> sheet" where
  "new_sheet t = \<lparr>priv_title = t, priv_categories = [], pub_title = None\<rparr>"

definition init :: "pyval \<Rightarrow> error + sheet" where
  "init title =
     (case str_of title of
        None \<Rightarrow> Inl TypeError
      | Some t \<Rightarrow> Inr (new_sheet t))"

definition init_default :: "error + sheet" where
  "init_default = init (PyStr ''Tally Sheet'')"

definition getTitle :: "sheet \<Rightarrow> string" where
  "getTitle self = priv_title self"

definition setTitle :: "sheet \<Rightarrow> pyval \<Rightarrow> unit outcome" where
  "setTitle self newTitle =
     (case str_of newTitle of
        None \<Rightarrow> raise TypeError self
      | Some t \<Rightarrow> return () (self\<lparr>pub_title := Some t\<rparr>))"

definition addCategory :: "sheet \<Rightarrow> pyval \<Rightarrow> pyval \<Rightarrow> unit outcome" where
  "addCategory self category amount =
     (let category = py_str category in
      case int_of amount of
        None \<Rightarrow> raise TypeError self
      | Some a \<Rightarrow>
          if a < 0 then raise ValueError self
          else if dict_contains (priv_categories self) category then
            (case dict_get (priv_categories self) category of
               None \<Rightarrow> raise KeyError self
             | Some n \<Rightarrow>
                 return () (self\<lparr>priv_categories :=
                   dict_set (priv_categories self) category (n + a)\<rparr>))
          else return () (self\<lparr>priv_categories :=
                 dict_set (priv_categories self) category a\<rparr>))"

text \<open>\<open>addCategory(category)\<close> with the default amount 0.\<close>

definition addCategory_default :: "sheet \<Rightarrow> pyval \<Rightarrow> unit outcome" where
  "addCategory_default self category = addCategory self category (PyInt 0)"

definition removeCategory :: "sheet \<Rightarrow> pyval \<Rightarrow> unit outcome" where
  "removeCategory self category =
     (let category = py_str category in
      if dict_contains (priv_categories self) category then
        return () (self\<lparr>priv_categories := dict_del (priv_categories self) category\<rparr>)
      else raise KeyError self)"

definition getTally :: "sheet \<Rightarrow> pyval \<Rightarrow> error + int" where
  "getTally self category =
     (let category = py_str category in
      if dict_contains (priv_categories self) category then
        (case dict_get (priv_categories self) category of
           None \<Rightarrow> Inl KeyError
         | Some n \<Rightarrow> Inr n)
      else Inl KeyError)"

definition setTally :: "sheet \<Rightarrow> pyval \<Rightarrow> pyval \<Rightarrow> unit outcome" where
  "setTally self category amount =
     (let category = py_str category in
      case int_of amount of
        None \<Rightarrow> raise TypeError self
      | Some a \<Rightarrow>
          if a < 0 then raise ValueError self
          else if dict_contains (priv_categories self) category then
            return () (self\<lparr>priv_categories :=
              dict_set (priv_categories self) category a\<rparr>)
          else raise KeyError self)"

definition increment :: "sheet \<Rightarrow> pyval \<Rightarrow> pyval \<Rightarrow> unit outcome" where
  "increment self category amount =
     (let category = py_str category in
      case int_of amount of
        None \<Rightarrow> raise TypeError self
      | Some a \<Rightarrow>
          if a < 0 then raise ValueError self
          else if dict_contains (priv_categories self) category then
            (case dict_get (priv_categories self) category of
               None \<Rightarrow> raise KeyError self
             | Some n \<Rightarrow>
                 return () (self\<lparr>priv_categories :=
                   dict_set (priv_categories self) category (n + a)\<rparr>))
          else raise KeyError self)"

definition increment_default :: "sheet \<Rightarrow> pyval \<Rightarrow> unit outcome" where
  "increment_default self category = increment self category (PyInt 1)"

definition decrement :: "sheet \<Rightarrow> pyval \<Rightarrow> pyval \<Rightarrow> unit outcome" where
  "decrement self category amount =
     (let category = py_str category in
      case int_of amount of
        None \<Rightarrow> raise TypeError self
      | Some a \<Rightarrow>
          if a < 0 then raise ValueError self
          else if dict_contains (priv_categories self) category then
            (case dict_get (priv_categories self) category of
               None \<Rightarrow> raise KeyError self
             | Some n \<Rightarrow>
                 if a > n then raise ValueError self
                 else return () (self\<lparr>priv_categories :=
                        dict_set (priv_categories self) category (n - a)\<rparr>))
          else raise KeyError self)"

definition decrement_default :: "sheet \<Rightarrow> pyval \<Rightarrow> unit outcome" where
  "decrement_default self category = decrement self category (PyInt 1)"

text \<open>
  \<open>zeroAll\<close>: the loop over \<open>self._categories.keys()\<close>, calling \<open>setTally(key, 0)\<close>; an
  exception of \<open>setTally\<close> would end the loop and leave the object as it is then.
\<close>

fun zeroAll_loop :: "sheet \<Rightarrow> string list \<Rightarrow> unit outcome" where
  "zeroAll_loop self [] = return () self"
| "zeroAll_loop self (key # keys) =
     (case setTally self (PyStr key) (PyInt 0) of
        (Inl e, self') \<Rightarrow> (Inl e, self')
      | (Inr _, self') \<Rightarrow> zeroAll_loop self' keys)"

definition zeroAll :: "sheet \<Rightarrow> unit outcome" where
  "zeroAll self = zeroAll_loop self (dict_keys (priv_categories self))"

section \<open>Rendering\<close>

text \<open>\<open>"%-30s" % s\<close> is \<open>ljust 30 s\<close>: padded with spaces on the right, never cut.\<close>

definition ljust :: "nat \<Rightarrow> string \<Rightarrow> string" where
  "ljust w s = s @ replicate (w - length s) CHR '' ''"

text \<open>\<open>"%-30s %d\n" % (category, count)\<close>; the count is written \<open>cnt\<close>.\<close>

definition format_row :: "string \<Rightarrow> int \<Rightarrow> string" where
  "format_row category cnt = ljust 30 category @ '' '' @ str_int cnt @ [CHR 0x0A]"

text \<open>
  The loop of \<open>itemsSortedByCategory\<close> over the sorted keys, with \<open>resultStr\<close> as the
  accumulator; \<open>self._categories[category]\<close> raises \<open>KeyError\<close> for a missing key.
\<close>

fun category_loop :: "dict \<Rightarrow> string list \<Rightarrow> string \<Rightarrow> error + string" where
  "category_loop d [] resultStr = Inr resultStr"
| "category_loop d (category # rest) resultStr =
     (case dict_get d category of
        None \<Rightarrow> Inl KeyError
      | Some cnt \<Rightarrow> category_loop d rest (resultStr @ format_row category cnt))"

definition itemsSortedByCategory :: "sheet \<Rightarrow> error + string" where
  "itemsSortedByCategory self =
     category_loop (priv_categories self) (sort (dict_keys (priv_categories self))) ''''"

text \<open>
  The loop of \<open>itemsSortedByCount\<close> over \<open>sorted(items, key=lambda item: item[1])\<close>.
  Python's \<open>sorted\<close> is stable, as \<open>sort_key\<close> is.
\<close>

fun count_loop :: "(string \<times> int) list \<Rightarrow> string \<Rightarrow> string" where
  "count_loop [] resultStr = resultStr"
| "count_loop ((category, cnt) # rest) resultStr =
     count_loop rest (resultStr @ format_row category cnt)"

definition itemsSortedByCount :: "sheet \<Rightarrow> string" where
  "itemsSortedByCount self =
     count_loop (sort_key snd (dict_items (priv_categories self))) ''''"

text \<open>The text of a list of rows, one formatted line for each.\<close>

definition render_rows :: "(string \<times> int) list \<Rightarrow> string" where
  "render_rows rows = concat (map (\<lambda>(category, cnt). format_row category cnt) rows)"

section \<open>The sheet of the demonstration\<close>

text \<open>
  \<open>main\<close> builds \<open>tSheet = TallySheet("Birds on June 1, 2018")\<close> and adds robin 5,
  sparrow 10, cardinal 3 and blue jay 4 to it.
\<close>

definition tSheet :: sheet where
  "tSheet =
     snd (addCategory
       (snd (addCategory
         (snd (addCategory
           (snd (addCategory (new_sheet ''Birds on June 1, 2018'')
             (PyStr ''robin'') (PyInt 5)))
           (PyStr ''sparrow'') (PyInt 10)))
         (PyStr ''cardinal'') (PyInt 3)))
       (PyStr ''blue jay'') (PyInt 4))"

section \<open>Reachable sheets\<close>

text \<open>
  The sheets a program can hold: a newly constructed one, and the sheet any method call
  leaves behind, whether the call returned or raised.
\<close>

inductive reachable :: "sheet \<Rightarrow> bool" where
  r_init: "init title = Inr self \<Longrightarrow> reachable self"
| r_setTitle: "reachable self \<Longrightarrow> reachable (snd (setTitle self newTitle))"
| r_addCategory: "reachable self \<Longrightarrow> reachable (snd (addCategory self category amount))"
| r_removeCategory: "reachable self \<Longrightarrow> reachable (snd (removeCategory self category))"
| r_setTally: "reachable self \<Longrightarrow> reachable (snd (setTally self category amount))"
| r_increment: "reachable self \<Longrightarrow> reachable (snd (increment self category amount))"
| r_decrement: "reachable self \<Longrightarrow> reachable (snd (decrement self category amount))"
| r_zeroAll: "reachable self \<Longrightarrow> reachable (snd (zeroAll self))"

text \<open>
  The two invariants of a sheet: its dictionary has no key twice and holds no negative
  count.
\<close>

definition sheet_inv :: "sheet \<Rightarrow> bool" where
  "sheet_inv self = (dict_ok (priv_categories self) \<and> dict_nonneg (priv_categories self))"

section \<open>Facts about dictionaries\<close>

lemma dict_get_None_iff: "dict_get d k = None \<longleftrightarrow> \<not> dict_contains d k"
  by (induction d) (auto simp: dict_contains_def dict_keys_def split: if_splits)

lemma dict_get_set: "dict_get (dict_set d k v) k' = (if k' = k then Some v else dict_get d k')"
  by (induction d) auto

lemma dict_keys_set_present:
  "dict_contains d k \<Longrightarrow> dict_keys (dict_set d k v) = dict_keys d"
  by (induction d) (force simp: dict_contains_def dict_keys_def)+

lemma dict_keys_set_absent:
  "\<not> dict_contains d k \<Longrightarrow> dict_keys (dict_set d k v) = dict_keys d @ [k]"
  by (induction d) (auto simp: dict_contains_def dict_keys_def)

lemma dict_set_same: "dict_get d k = Some v \<Longrightarrow> dict_set d k v = d"
  by (induction d) (auto split: if_splits)

lemma dict_set_set: "dict_set (dict_set d k v) k w = dict_set d k w"
  by (induction d) auto

lemma dict_ok_set: "dict_ok d \<Longrightarrow> dict_ok (dict_set d k v)"
proof (cases "dict_contains d k")
  case True
  assume "dict_ok d"
  with True show ?thesis
    using dict_keys_set_present [of d k v] by (simp add: dict_ok_def dict_keys_def)
next
  case False
  assume "dict_ok d"
  with False show ?thesis
    using dict_keys_set_absent [of d k v]
    by (simp add: dict_ok_def dict_keys_def dict_contains_def)
qed

lemma set_dict_del: "set (dict_del d k) \<subseteq> set d"
  by (induction d) (auto split: if_splits)

lemma dict_ok_del: "dict_ok d \<Longrightarrow> dict_ok (dict_del d k)"
proof (induction d)
  case Nil
  then show ?case by (simp add: dict_ok_def)
next
  case (Cons p d)
  obtain k' v' where p: "p = (k', v')" by (cases p)
  from Cons.prems have ok: "dict_ok d" and fresh: "k' \<notin> fst ` set d"
    by (simp_all add: dict_ok_def p)
  from fresh set_dict_del [of d k] have "k' \<notin> fst ` set (dict_del d k)" by auto
  with Cons.IH [OF ok] ok show ?case by (simp add: dict_ok_def p)
qed

lemma dict_nonneg_set: "dict_nonneg d \<Longrightarrow> 0 \<le> v \<Longrightarrow> dict_nonneg (dict_set d k v)"
  by (induction d) (auto simp: dict_nonneg_def split: if_splits)

lemma dict_nonneg_del: "dict_nonneg d \<Longrightarrow> dict_nonneg (dict_del d k)"
  using set_dict_del [of d k] by (auto simp: dict_nonneg_def)

lemma dict_get_in_set: "dict_get d k = Some v \<Longrightarrow> (k, v) \<in> set d"
  by (induction d) (auto split: if_splits)

lemma dict_nonneg_get: "dict_nonneg d \<Longrightarrow> dict_get d k = Some v \<Longrightarrow> 0 \<le> v"
  using dict_get_in_set [of d k v] by (auto simp: dict_nonneg_def)

lemma dict_ok_in_set_get: "dict_ok d \<Longrightarrow> (k, v) \<in> set d \<Longrightarrow> dict_get d k = Some v"
  by (induction d) (auto simp: dict_ok_def rev_image_eqI)

lemma dict_set_as_map:
  "dict_ok d \<Longrightarrow> dict_contains d k \<Longrightarrow>
   dict_set d k v = map (\<lambda>(k', v'). if k' = k then (k', v) else (k', v')) d"
proof (induction d)
  case Nil
  then show ?case by (simp add: dict_contains_def dict_keys_def)
next
  case (Cons p d)
  obtain k' v' where p: "p = (k', v')" by (cases p)
  from Cons.prems have ok: "dict_ok d" and fresh: "k' \<notin> fst ` set d"
    by (simp_all add: dict_ok_def p)
  show ?case
  proof (cases "k' = k")
    case True
    with fresh have "\<forall>q \<in> set d. fst q \<noteq> k" by auto
    then have "map (\<lambda>(k', v'). if k' = k then (k', v) else (k', v')) d = d"
      by (induction d) auto
    with True show ?thesis by (simp add: p)
  next
    case False
    with Cons.prems have "dict_contains d k"
      by (simp add: dict_contains_def dict_keys_def p)
    from Cons.IH [OF ok this] False show ?thesis by (simp add: p)
  qed
qed

section \<open>The loop of zeroAll\<close>

lemma setTally_cases:
  "setTally self c amount =
     (case int_of amount of
        None \<Rightarrow> (Inl TypeError, self)
      | Some a \<Rightarrow>
          if a < 0 then (Inl ValueError, self)
          else if dict_contains (priv_categories self) (py_str c)
          then (Inr (), self\<lparr>priv_categories := dict_set (priv_categories self) (py_str c) a\<rparr>)
          else (Inl KeyError, self))"
  by (simp add: setTally_def raise_def return_def Let_def split: option.splits)

lemma zeroAll_loop_eq:
  "dict_ok (priv_categories self) \<Longrightarrow> set keys \<subseteq> set (dict_keys (priv_categories self)) \<Longrightarrow>
   zeroAll_loop self keys =
     (Inr (), self\<lparr>priv_categories :=
        map (\<lambda>(k, v). if k \<in> set keys then (k, 0) else (k, v)) (priv_categories self)\<rparr>)"
proof (induction keys arbitrary: self)
  case Nil
  have "map (\<lambda>(k, v). (k, v)) (priv_categories self) = priv_categories self"
    by (induction "priv_categories self") auto
  then show ?case by (simp add: return_def)
next
  case (Cons key keys)
  let ?d = "priv_categories self"
  let ?self' = "self\<lparr>priv_categories := dict_set ?d key 0\<rparr>"
  from Cons.prems have key: "dict_contains ?d key"
    by (simp add: dict_contains_def)
  then have step: "setTally self (PyStr key) (PyInt 0) = (Inr (), ?self')"
    by (simp add: setTally_cases)
  have ok': "dict_ok (priv_categories ?self')"
    using Cons.prems(1) by (simp add: dict_ok_set)
  have keys': "set keys \<subseteq> set (dict_keys (priv_categories ?self'))"
    using Cons.prems(2) key by (simp add: dict_keys_set_present)
  have "zeroAll_loop self (key # keys) = zeroAll_loop ?self' keys"
    by (simp add: step)
  also have "\<dots> = (Inr (), ?self'\<lparr>priv_categories :=
        map (\<lambda>(k, v). if k \<in> set keys then (k, 0) else (k, v)) (priv_categories ?self')\<rparr>)"
    by (rule Cons.IH [OF ok' keys'])
  also have "map (\<lambda>(k, v). if k \<in> set keys then (k, 0) else (k, v)) (priv_categories ?self')
      = map (\<lambda>(k, v). if k \<in> set (key # keys) then (k, 0) else (k, v)) ?d"
    by (simp add: dict_set_as_map [OF Cons.prems(1) key]) (auto)
  finally show ?case by simp
qed

lemma zeroAll_eq:
  "dict_ok (priv_categories self) \<Longrightarrow>
   zeroAll self = (Inr (), self\<lparr>priv_categories := map (\<lambda>(k, v). (k, 0)) (priv_categories self)\<rparr>)"
proof -
  assume ok: "dict_ok (priv_categories self)"
  have "map (\<lambda>(k, v). if k \<in> set (dict_keys (priv_categories self)) then (k, 0) else (k, v))
          (priv_categories self) = map (\<lambda>(k, v). (k, 0)) (priv_categories self)"
    by (auto simp: dict_keys_def rev_image_eqI)
  with zeroAll_loop_eq [OF ok subset_refl] show ?thesis
    by (simp add: zeroAll_def)
qed

section \<open>What each method does\<close>

lemma dict_contains_get: "dict_contains d k \<longleftrightarrow> dict_get d k \<noteq> None"
  by (simp add: dict_get_None_iff)

lemma dict_nonneg_add:
  "dict_nonneg d \<Longrightarrow> dict_get d k = Some n \<Longrightarrow> 0 \<le> a \<Longrightarrow> dict_nonneg (dict_set d k (n + a))"
proof (rule dict_nonneg_set)
  assume "dict_nonneg d" and "dict_get d k = Some n" and "0 \<le> a"
  then show "0 \<le> n + a" using dict_nonneg_get [of d k n] by simp
qed

lemma addCategory_cases:
  "addCategory self c amount =
     (case int_of amount of
        None \<Rightarrow> (Inl TypeError, self)
      | Some a \<Rightarrow>
          if a < 0 then (Inl ValueError, self)
          else (case dict_get (priv_categories self) (py_str c) of
                  None \<Rightarrow> (Inr (), self\<lparr>priv_categories :=
                             dict_set (priv_categories self) (py_str c) a\<rparr>)
                | Some n \<Rightarrow> (Inr (), self\<lparr>priv_categories :=
                             dict_set (priv_categories self) (py_str c) (n + a)\<rparr>)))"
  by (auto simp: addCategory_def raise_def return_def Let_def dict_contains_get
      split: option.splits)

lemma removeCategory_cases:
  "removeCategory self c =
     (if dict_contains (priv_categories self) (py_str c)
      then (Inr (), self\<lparr>priv_categories := dict_del (priv_categories self) (py_str c)\<rparr>)
      else (Inl KeyError, self))"
  by (simp add: removeCategory_def raise_def return_def Let_def)

lemma getTally_cases:
  "getTally self c =
     (case dict_get (priv_categories self) (py_str c) of None \<Rightarrow> Inl KeyError | Some n \<Rightarrow> Inr n)"
  by (auto simp: getTally_def Let_def dict_contains_get split: option.splits)

lemma increment_cases:
  "increment self c amount =
     (case int_of amount of
        None \<Rightarrow> (Inl TypeError, self)
      | Some a \<Rightarrow>
          if a < 0 then (Inl ValueError, self)
          else (case dict_get (priv_categories self) (py_str c) of
                  None \<Rightarrow> (Inl KeyError, self)
                | Some n \<Rightarrow> (Inr (), self\<lparr>priv_categories :=
                             dict_set (priv_categories self) (py_str c) (n + a)\<rparr>)))"
  by (auto simp: increment_def raise_def return_def Let_def dict_contains_get
      split: option.splits)

lemma decrement_cases:
  "decrement self c amount =
     (case int_of amount of
        None \<Rightarrow> (Inl TypeError, self)
      | Some a \<Rightarrow>
          if a < 0 then (Inl ValueError, self)
          else (case dict_get (priv_categories self) (py_str c) of
                  None \<Rightarrow> (Inl KeyError, self)
                | Some n \<Rightarrow>
                    if a > n then (Inl ValueError, self)
                    else (Inr (), self\<lparr>priv_categories :=
                             dict_set (priv_categories self) (py_str c) (n - a)\<rparr>)))"
  by (auto simp: decrement_def raise_def return_def Let_def dict_contains_get
      split: option.splits)

lemma setTitle_categories: "priv_categories (snd (setTitle self t)) = priv_categories self"
  by (simp add: setTitle_def raise_def return_def split: option.splits)

section \<open>Invariants\<close>

lemma inv_addCategory: "sheet_inv self \<Longrightarrow> sheet_inv (snd (addCategory self c amount))"
  by (auto simp: sheet_inv_def addCategory_cases dict_ok_set dict_nonneg_set dict_nonneg_add
      split: option.splits)

lemma inv_removeCategory: "sheet_inv self \<Longrightarrow> sheet_inv (snd (removeCategory self c))"
  by (simp add: sheet_inv_def removeCategory_cases dict_ok_del dict_nonneg_del)

lemma inv_setTally: "sheet_inv self \<Longrightarrow> sheet_inv (snd (setTally self c amount))"
  by (simp add: sheet_inv_def setTally_cases dict_ok_set dict_nonneg_set split: option.splits)

lemma inv_increment: "sheet_inv self \<Longrightarrow> sheet_inv (snd (increment self c amount))"
  by (auto simp: sheet_inv_def increment_cases dict_ok_set dict_nonneg_add
      split: option.splits)

lemma inv_decrement: "sheet_inv self \<Longrightarrow> sheet_inv (snd (decrement self c amount))"
  by (auto simp: sheet_inv_def decrement_cases dict_ok_set dict_nonneg_set
      split: option.splits)

lemma inv_zeroAll: "sheet_inv self \<Longrightarrow> sheet_inv (snd (zeroAll self))"
  by (auto simp: sheet_inv_def zeroAll_eq dict_ok_def dict_nonneg_def comp_def case_prod_beta)

lemma inv_setTitle: "sheet_inv self \<Longrightarrow> sheet_inv (snd (setTitle self t))"
  by (simp add: sheet_inv_def setTitle_categories)

lemma inv_init: "init title = Inr self \<Longrightarrow> sheet_inv self"
  by (auto simp: init_def new_sheet_def sheet_inv_def dict_ok_def dict_nonneg_def split: option.splits)

lemma reachable_inv: "reachable self \<Longrightarrow> sheet_inv self"
  by (induction rule: reachable.induct)
    (simp_all add: inv_init inv_setTitle inv_addCategory inv_removeCategory inv_setTally
      inv_increment inv_decrement inv_zeroAll)

section \<open>The demonstration sheet\<close>

lemma tSheet_eq:
  "tSheet = \<lparr>priv_title = ''Birds on June 1, 2018'',
     priv_categories = [(''robin'', 5), (''sparrow'', 10), (''cardinal'', 3), (''blue jay'', 4)],
     pub_title = None\<rparr>"
  by (simp add: tSheet_def addCategory_cases new_sheet_def)

lemma tSheet_categories:
  "priv_categories tSheet = [(''robin'', 5), (''sparrow'', 10), (''cardinal'', 3), (''blue jay'', 4)]"
  by (simp add: tSheet_eq)

lemma reachable_new_sheet: "reachable (new_sheet t)"
  by (rule r_init [of "PyStr t"]) (simp add: init_def)

lemma reachable_tSheet: "reachable tSheet"
  unfolding tSheet_def by (intro r_addCategory reachable_new_sheet)

section \<open>The title\<close>

lemma setTitle_not_text: "str_of newTitle = None \<Longrightarrow> setTitle self newTitle = (Inl TypeError, self)"
  by (simp add: setTitle_def raise_def)

lemma setTitle_getTitle: "getTitle (snd (setTitle self newTitle)) = getTitle self"
  by (simp add: setTitle_def getTitle_def raise_def return_def split: option.splits)

text \<open>
  Claim C1 says that after a successful \<open>setTitle(newTitle)\<close> the title returned by
  \<open>getTitle()\<close> is \<open>newTitle\<close>. The code assigns the attribute \<open>title\<close> and reads
  \<open>_title\<close>: on the sheet \<open>TallySheet("Birds")\<close>, the call
  \<open>setTitle("Birds 1/1/19")\<close> of \<open>main\<close> returns without an exception, and
  \<open>getTitle()\<close> still returns \<open>"Birds"\<close>.
\<close>

theorem setTitle_keeps_old_title:
  "init (PyStr ''Birds'') = Inr (new_sheet ''Birds'') \<and>
   fst (setTitle (new_sheet ''Birds'') (PyStr ''Birds 1/1/19'')) = Inr () \<and>
   getTitle (snd (setTitle (new_sheet ''Birds'') (PyStr ''Birds 1/1/19''))) = ''Birds''"
  by (simp add: init_def setTitle_def getTitle_def new_sheet_def return_def)

section \<open>Decrementing\<close>

text \<open>
  Claim C3: for a category \<open>c\<close> with count \<open>n\<close>, \<open>decrement(c, k)\<close> with
  \<open>0 \<le> k \<le> n\<close> succeeds and leaves \<open>getTally(c) = n - k\<close>; with \<open>k > n\<close> it raises
  \<open>ValueError\<close> and leaves the whole sheet, hence \<open>getTally(c) = n\<close>, as it was.
\<close>

theorem decrement_contract:
  assumes "dict_get (priv_categories self) (py_str c) = Some n"
    and "int_of amount = Some k"
  shows "(0 \<le> k \<and> k \<le> n \<longrightarrow>
            fst (decrement self c amount) = Inr () \<and>
            getTally (snd (decrement self c amount)) c = Inr (n - k)) \<and>
         (n < k \<longrightarrow>
            decrement self c amount = (Inl ValueError, self) \<and>
            getTally (snd (decrement self c amount)) c = Inr n)"
  using assms by (simp add: decrement_cases getTally_cases dict_get_set)

theorem decrement_contract_witness:
  "getTally (snd (decrement tSheet (PyStr ''cardinal'') (PyInt 2))) (PyStr ''cardinal'') = Inr 1 \<and>
   fst (decrement tSheet (PyStr ''cardinal'') (PyInt 2)) = Inr () \<and>
   decrement tSheet (PyStr ''cardinal'') (PyInt 4) = (Inl ValueError, tSheet) \<and>
   getTally (snd (decrement tSheet (PyStr ''cardinal'') (PyInt 4))) (PyStr ''cardinal'') = Inr 3"
  using decrement_contract [of tSheet "PyStr ''cardinal''" 3 "PyInt 2" 2]
    decrement_contract [of tSheet "PyStr ''cardinal''" 3 "PyInt 4" 4]
  by (simp add: tSheet_categories getTally_cases)

section \<open>Setting a count\<close>

text \<open>
  Claim C6: \<open>setTally(c, amount)\<close> raises \<open>ValueError\<close> for a negative amount;
  otherwise it raises \<open>KeyError\<close> for a category that is not in the sheet; otherwise
  it succeeds and the count of \<open>c\<close> is exactly \<open>amount\<close>. In no case does it create a
  category or change the count of another one: the keys after the call are the keys
  before it.
\<close>

theorem setTally_contract:
  assumes "int_of amount = Some a"
  shows "(a < 0 \<longrightarrow> setTally self c amount = (Inl ValueError, self)) \<and>
         (0 \<le> a \<and> \<not> dict_contains (priv_categories self) (py_str c) \<longrightarrow>
            setTally self c amount = (Inl KeyError, self)) \<and>
         (0 \<le> a \<and> dict_contains (priv_categories self) (py_str c) \<longrightarrow>
            fst (setTally self c amount) = Inr () \<and>
            getTally (snd (setTally self c amount)) c = Inr a) \<and>
         (\<forall>c'. py_str c' \<noteq> py_str c \<longrightarrow>
            getTally (snd (setTally self c amount)) c' = getTally self c') \<and>
         dict_keys (priv_categories (snd (setTally self c amount)))
           = dict_keys (priv_categories self)"
  using assms by (simp add: setTally_cases getTally_cases dict_get_set dict_keys_set_present)

theorem setTally_contract_witness:
  "setTally tSheet (PyStr ''robin'') (PyInt (- 1)) = (Inl ValueError, tSheet) \<and>
   setTally tSheet (PyStr ''eagle'') (PyInt 3) = (Inl KeyError, tSheet) \<and>
   getTally (snd (setTally tSheet (PyStr ''robin'') (PyInt 3))) (PyStr ''robin'') = Inr 3"
  using setTally_contract [of "PyInt (- 1)" "- 1" tSheet "PyStr ''robin''"]
    setTally_contract [of "PyInt 3" 3 tSheet "PyStr ''eagle''"]
    setTally_contract [of "PyInt 3" 3 tSheet "PyStr ''robin''"]
  by (simp add: tSheet_categories dict_contains_def dict_keys_def)

section \<open>Incrementing and decrementing\<close>

text \<open>
  Claim C9: on a reachable sheet, for a category \<open>c\<close> that exists and an amount
  \<open>k \<ge> 0\<close>, \<open>increment(c, k)\<close> succeeds, and \<open>decrement(c, k)\<close> after it succeeds
  and gives back the sheet as it was before the two calls: the count of \<open>c\<close> and of
  every other category, and their order.
\<close>

theorem increment_decrement_round_trip:
  assumes "reachable self"
    and "dict_contains (priv_categories self) (py_str c)"
    and "int_of amount = Some k" and "0 \<le> k"
  shows "fst (increment self c amount) = Inr () \<and>
         decrement (snd (increment self c amount)) c amount = (Inr (), self)"
proof -
  from assms(2) obtain n where n: "dict_get (priv_categories self) (py_str c) = Some n"
    by (auto simp: dict_contains_get)
  from reachable_inv [OF assms(1)] n have "0 \<le> n"
    by (auto simp: sheet_inv_def dest: dict_nonneg_get)
  with n assms(3,4) show ?thesis
    by (simp add: increment_cases decrement_cases dict_get_set dict_set_set dict_set_same)
qed

theorem increment_decrement_round_trip_witness:
  "fst (increment tSheet (PyStr ''sparrow'') (PyInt 7)) = Inr () \<and>
   decrement (snd (increment tSheet (PyStr ''sparrow'') (PyInt 7))) (PyStr ''sparrow'') (PyInt 7)
     = (Inr (), tSheet)"
  using increment_decrement_round_trip [OF reachable_tSheet, of "PyStr ''sparrow''" "PyInt 7" 7]
  by (simp add: tSheet_categories dict_contains_def dict_keys_def)

section \<open>The order of the checks\<close>

text \<open>
  Claim C10: for a category that is not in the sheet and a negative amount,
  \<open>increment\<close>, \<open>decrement\<close> and \<open>setTally\<close> raise \<open>ValueError\<close>, not \<open>KeyError\<close>, and
  leave the sheet unchanged.
\<close>

theorem negative_amount_checked_first:
  assumes "\<not> dict_contains (priv_categories self) (py_str c)"
    and "int_of amount = Some a" and "a < 0"
  shows "increment self c amount = (Inl ValueError, self) \<and>
         decrement self c amount = (Inl ValueError, self) \<and>
         setTally self c amount = (Inl ValueError, self)"
  using assms by (simp add: increment_cases decrement_cases setTally_cases)

theorem negative_amount_checked_first_witness:
  "increment tSheet (PyStr ''eagle'') (PyInt (- 1)) = (Inl ValueError, tSheet) \<and>
   decrement tSheet (PyStr ''eagle'') (PyInt (- 1)) = (Inl ValueError, tSheet) \<and>
   setTally tSheet (PyStr ''eagle'') (PyInt (- 1)) = (Inl ValueError, tSheet)"
  using negative_amount_checked_first [of tSheet "PyStr ''eagle''" "PyInt (- 1)" "- 1"]
  by (simp add: tSheet_categories dict_contains_def dict_keys_def)

section \<open>Counts are never negative\<close>

text \<open>
  Claim C4: in every sheet reachable from a new one by any calls of the methods, with
  any arguments and whether the calls return or raise, no stored count is negative, and
  so \<open>getTally\<close> never returns a negative number.
\<close>

theorem counts_never_negative:
  assumes "reachable self"
  shows "dict_nonneg (priv_categories self) \<and> (\<forall>c n. getTally self c = Inr n \<longrightarrow> 0 \<le> n)"
proof -
  from reachable_inv [OF assms] have nn: "dict_nonneg (priv_categories self)"
    by (simp add: sheet_inv_def)
  then show ?thesis
    by (auto simp: getTally_cases split: option.splits dest: dict_nonneg_get)
qed

theorem counts_never_negative_witness:
  "reachable (snd (decrement tSheet (PyStr ''cardinal'') (PyInt 3))) \<and>
   dict_nonneg (priv_categories (snd (decrement tSheet (PyStr ''cardinal'') (PyInt 3))))"
  using counts_never_negative [OF r_decrement [OF reachable_tSheet],
      of "PyStr ''cardinal''" "PyInt 3"]
  by (simp add: r_decrement [OF reachable_tSheet])

section \<open>Zeroing all counts\<close>

text \<open>
  Claim C7: \<open>zeroAll()\<close> raises nothing, keeps the keys (and their order), keeps the
  title, and leaves every count 0. The hypothesis is that of every Python dict: no key
  occurs twice.
\<close>

theorem zeroAll_contract:
  assumes "dict_ok (priv_categories self)"
  shows "fst (zeroAll self) = Inr () \<and>
         dict_keys (priv_categories (snd (zeroAll self))) = dict_keys (priv_categories self) \<and>
         getTitle (snd (zeroAll self)) = getTitle self \<and>
         pub_title (snd (zeroAll self)) = pub_title self \<and>
         (\<forall>(k, v) \<in> set (priv_categories (snd (zeroAll self))). v = 0)"
  by (auto simp: zeroAll_eq [OF assms] dict_keys_def getTitle_def)

theorem zeroAll_contract_witness:
  "dict_ok (priv_categories tSheet) \<and>
   fst (zeroAll tSheet) = Inr () \<and>
   dict_keys (priv_categories (snd (zeroAll tSheet)))
     = [''robin'', ''sparrow'', ''cardinal'', ''blue jay''] \<and>
   getTitle (snd (zeroAll tSheet)) = getTitle tSheet \<and>
   list_all (\<lambda>(k, v). v = 0) (priv_categories (snd (zeroAll tSheet)))"
proof -
  have ok: "dict_ok (priv_categories tSheet)"
    by (simp add: tSheet_categories dict_ok_def)
  from zeroAll_contract [OF ok] ok show ?thesis
    by (simp add: tSheet_categories dict_keys_def list_all_iff)
qed

section \<open>Adding a category\<close>

text \<open>
  Claim C2 ends with: \<open>addCategory(c, 0)\<close> followed by \<open>addCategory(c, amount)\<close> yields
  \<open>getTally(c) = amount\<close>. On the sheet of \<open>main\<close>, where robin has count 5, the two
  calls with amount 2 leave robin at 7, not at 2.
\<close>

theorem addCategory_twice_counterexample:
  "getTally (snd (addCategory (snd (addCategory tSheet (PyStr ''robin'') (PyInt 0)))
      (PyStr ''robin'') (PyInt 2))) (PyStr ''robin'') = Inr 7 \<and>
   getTally (snd (addCategory (snd (addCategory tSheet (PyStr ''robin'') (PyInt 0)))
      (PyStr ''robin'') (PyInt 2))) (PyStr ''robin'') \<noteq> Inr 2"
  by (simp add: addCategory_cases getTally_cases tSheet_categories)

text \<open>
  Claim C2 as amended: for an integer amount \<open>a \<ge> 0\<close>, \<open>addCategory(c, a)\<close> succeeds;
  a category that exists with count \<open>n\<close> then has count \<open>n + a\<close>, and a new one is
  created with count \<open>a\<close>. \<open>addCategory(c, 0)\<close> followed by \<open>addCategory(c, a)\<close> yields
  \<open>getTally(c) = n + a\<close> for a category that had count \<open>n\<close>, and \<open>getTally(c) = a\<close> for
  a category that was not in the sheet.
\<close>

theorem addCategory_additive:
  assumes "int_of amount = Some a" and "0 \<le> a"
  shows "fst (addCategory self c amount) = Inr () \<and>
         (\<forall>n. dict_get (priv_categories self) (py_str c) = Some n \<longrightarrow>
            getTally (snd (addCategory self c amount)) c = Inr (n + a) \<and>
            getTally (snd (addCategory (snd (addCategory self c (PyInt 0))) c amount)) c
              = Inr (n + a)) \<and>
         (dict_get (priv_categories self) (py_str c) = None \<longrightarrow>
            getTally (snd (addCategory self c amount)) c = Inr a \<and>
            getTally (snd (addCategory (snd (addCategory self c (PyInt 0))) c amount)) c
              = Inr a)"
  using assms by (simp add: addCategory_cases getTally_cases dict_get_set split: option.splits)

theorem addCategory_additive_witness:
  "fst (addCategory tSheet (PyStr ''robin'') (PyInt 2)) = Inr () \<and>
   getTally (snd (addCategory tSheet (PyStr ''robin'') (PyInt 2))) (PyStr ''robin'') = Inr 7 \<and>
   getTally (snd (addCategory tSheet (PyStr ''eagle'') (PyInt 2))) (PyStr ''eagle'') = Inr 2 \<and>
   getTally (snd (addCategory (snd (addCategory tSheet (PyStr ''eagle'') (PyInt 0)))
      (PyStr ''eagle'') (PyInt 2))) (PyStr ''eagle'') = Inr 2"
  using addCategory_additive [of "PyInt 2" 2 tSheet "PyStr ''robin''"]
    addCategory_additive [of "PyInt 2" 2 tSheet "PyStr ''eagle''"]
  by (simp add: tSheet_categories)

section \<open>Category keys\<close>

text \<open>
  Claim C5: every method that takes a category does with it what it does with its string
  form \<open>str(category)\<close>; a reachable sheet never has a key twice (and its keys are
  strings); and on a new sheet \<open>addCategory(5)\<close> followed by \<open>addCategory("5", 2)\<close>
  leaves exactly one category, \<open>"5"\<close>, with count 2.
\<close>

theorem category_keys_normalized:
  assumes "reachable self"
  shows "addCategory self c amount = addCategory self (PyStr (py_str c)) amount \<and>
         removeCategory self c = removeCategory self (PyStr (py_str c)) \<and>
         getTally self c = getTally self (PyStr (py_str c)) \<and>
         setTally self c amount = setTally self (PyStr (py_str c)) amount \<and>
         increment self c amount = increment self (PyStr (py_str c)) amount \<and>
         decrement self c amount = decrement self (PyStr (py_str c)) amount \<and>
         dict_ok (priv_categories self) \<and>
         priv_categories (snd (addCategory (snd (addCategory_default (new_sheet t) (PyInt 5)))
             (PyStr ''5'') (PyInt 2))) = [(''5'', 2)]"
proof -
  have ok: "dict_ok (priv_categories self)"
    using reachable_inv [OF assms] by (simp add: sheet_inv_def)
  have five: "priv_categories (snd (addCategory (snd (addCategory_default (new_sheet t) (PyInt 5)))
             (PyStr ''5'') (PyInt 2))) = [(''5'', 2)]"
    by (simp add: addCategory_default_def addCategory_cases new_sheet_def str_int_def digits.simps)
  have "addCategory self c amount = addCategory self (PyStr (py_str c)) amount"
    by (simp add: addCategory_def)
  moreover have "removeCategory self c = removeCategory self (PyStr (py_str c))"
    by (simp add: removeCategory_def)
  moreover have "getTally self c = getTally self (PyStr (py_str c))"
    by (simp add: getTally_def)
  moreover have "setTally self c amount = setTally self (PyStr (py_str c)) amount"
    by (simp add: setTally_def)
  moreover have "increment self c amount = increment self (PyStr (py_str c)) amount"
    by (simp add: increment_def)
  moreover have "decrement self c amount = decrement self (PyStr (py_str c)) amount"
    by (simp add: decrement_def)
  ultimately show ?thesis using ok five by (intro conjI)
qed

theorem category_keys_normalized_witness:
  "reachable tSheet \<and>
   getTally tSheet (PyInt 5) = getTally tSheet (PyStr ''5'') \<and>
   increment tSheet (PyBool True) (PyInt 1) = increment tSheet (PyStr ''True'') (PyInt 1) \<and>
   dict_ok (priv_categories tSheet)"
  using category_keys_normalized [OF reachable_tSheet, of "PyInt 5" "PyInt 1"]
    category_keys_normalized [OF reachable_tSheet, of "PyBool True" "PyInt 1"]
  by (simp add: reachable_tSheet str_int_def digits.simps)

section \<open>The sorted listings\<close>

lemma digit_char_code: "n < 10 \<Longrightarrow> of_char (''0123456789'' ! n) = 48 + n"
proof -
  assume "n < 10"
  then have "n \<le> 4 \<and> (n = 4 \<or> n = 3 \<or> n = 2 \<or> n = 1 \<or> n = 0)
      \<or> 5 \<le> n \<and> (n = 9 \<or> n = 8 \<or> n = 7 \<or> n = 6 \<or> n = 5)"
    by arith
  then show ?thesis by (elim disjE conjE) simp_all
qed

lemma dec_value_snoc: "dec_value (s @ [ch]) = 10 * dec_value s + (of_char ch - 48)"
  by (simp add: dec_value_def)

lemma dec_value_digits: "dec_value (digits n) = n"
proof (induction n rule: digits.induct)
  case (1 n)
  show ?case
  proof (cases "n < 10")
    case True
    then show ?thesis
      by (subst digits.simps) (simp add: dec_value_def digit_char_code)
  next
    case False
    have "n mod 10 < 10" by simp
    with False "1.IH" show ?thesis
      by (subst digits.simps) (simp add: dec_value_snoc digit_char_code)
  qed
qed

lemma category_loop_eq:
  "set ks \<subseteq> set (dict_keys d) \<Longrightarrow>
   category_loop d ks acc = Inr (acc @ render_rows (map (\<lambda>k. (k, the (dict_get d k))) ks))"
proof (induction ks arbitrary: acc)
  case Nil
  then show ?case by (simp add: render_rows_def)
next
  case (Cons k ks)
  from Cons.prems have "dict_contains d k" by (simp add: dict_contains_def)
  then obtain n where n: "dict_get d k = Some n" by (auto simp: dict_contains_get)
  from Cons.prems have "set ks \<subseteq> set (dict_keys d)" by simp
  from Cons.IH [OF this] n show ?case by (simp add: render_rows_def)
qed

lemma count_loop_eq: "count_loop rows acc = acc @ render_rows rows"
  by (induction rows acc rule: count_loop.induct) (simp_all add: render_rows_def)

lemma rows_of_keys_mset:
  assumes "dict_ok d"
  shows "mset (map (\<lambda>k. (k, the (dict_get d k))) (sort (dict_keys d))) = mset d"
proof -
  have "mset (map (\<lambda>k. (k, the (dict_get d k))) (sort (dict_keys d)))
      = image_mset (\<lambda>p. (fst p, the (dict_get d (fst p)))) (mset d)"
    by (simp add: dict_keys_def multiset.map_comp comp_def)
  also have "\<dots> = image_mset (\<lambda>p. p) (mset d)"
  proof (rule image_mset_cong)
    fix p assume "p \<in># mset d"
    then have "(fst p, snd p) \<in> set d" by simp
    from dict_ok_in_set_get [OF assms this] show "(fst p, the (dict_get d (fst p))) = p"
      by simp
  qed
  finally show ?thesis by simp
qed

text \<open>
  Claim C8: the text of \<open>itemsSortedByCategory()\<close> is the rows of the sheet, each
  category with its count, in non-decreasing order of category (strings compared
  character by character, by character code); the text of \<open>itemsSortedByCount()\<close> is the
  rows in non-decreasing order of count, rows of equal count in the order the dict
  iterates them. Both render a row the same way: the category, spaces up to 30
  characters, a space, the count in decimal (with a minus sign if it were negative) and a
  newline.
\<close>

theorem items_sorted:
  assumes "dict_ok (priv_categories self)"
  shows "(\<exists>rows. itemsSortedByCategory self = Inr (render_rows rows) \<and>
            mset rows = mset (dict_items (priv_categories self)) \<and>
            sorted (map fst rows)) \<and>
         (\<exists>rows. itemsSortedByCount self = render_rows rows \<and>
            mset rows = mset (dict_items (priv_categories self)) \<and>
            sorted (map snd rows) \<and>
            (\<forall>n. filter (\<lambda>r. snd r = n) rows
                 = filter (\<lambda>r. snd r = n) (dict_items (priv_categories self)))) \<and>
         (\<forall>rows category cnt. render_rows ((category, cnt) # rows)
            = category @ replicate (30 - length category) CHR '' '' @ '' '' @ str_int cnt
              @ [CHR 0x0A] @ render_rows rows) \<and>
         render_rows [] = '''' \<and>
         (\<forall>cnt. 0 \<le> cnt \<longrightarrow> dec_value (str_int cnt) = nat cnt) \<and>
         (\<forall>cnt. cnt < 0 \<longrightarrow> str_int cnt = CHR ''-'' # str_int (- cnt))"
proof -
  let ?d = "priv_categories self"
  let ?rows1 = "map (\<lambda>k. (k, the (dict_get ?d k))) (sort (dict_keys ?d))"
  have "itemsSortedByCategory self = Inr (render_rows ?rows1)"
    by (simp add: itemsSortedByCategory_def category_loop_eq)
  moreover have "mset ?rows1 = mset (dict_items ?d)"
    by (simp only: rows_of_keys_mset [OF assms] dict_items_def)
  moreover have "sorted (map fst ?rows1)"
    by (simp add: comp_def)
  ultimately have part1: "\<exists>rows. itemsSortedByCategory self = Inr (render_rows rows) \<and>
            mset rows = mset (dict_items ?d) \<and> sorted (map fst rows)"
    by blast
  let ?rows2 = "sort_key snd (dict_items ?d)"
  have "itemsSortedByCount self = render_rows ?rows2"
    by (simp add: itemsSortedByCount_def count_loop_eq)
  moreover have "mset ?rows2 = mset (dict_items ?d)" by simp
  moreover have "sorted (map snd ?rows2)" by simp
  moreover have "\<forall>n. filter (\<lambda>r. snd r = n) ?rows2 = filter (\<lambda>r. snd r = n) (dict_items ?d)"
    by (simp add: sort_key_stable)
  ultimately have part2: "\<exists>rows. itemsSortedByCount self = render_rows rows \<and>
            mset rows = mset (dict_items ?d) \<and> sorted (map snd rows) \<and>
            (\<forall>n. filter (\<lambda>r. snd r = n) rows = filter (\<lambda>r. snd r = n) (dict_items ?d))"
    by blast
  have part3: "\<forall>rows category cnt. render_rows ((category, cnt) # rows)
            = category @ replicate (30 - length category) CHR '' '' @ '' '' @ str_int cnt
              @ [CHR 0x0A] @ render_rows rows"
    by (simp add: render_rows_def format_row_def ljust_def)
  have part4: "render_rows [] = ''''" by (simp add: render_rows_def)
  have part5: "\<forall>cnt. 0 \<le> cnt \<longrightarrow> dec_value (str_int cnt) = nat cnt"
    by (simp add: str_int_def dec_value_digits)
  have part6: "\<forall>cnt. cnt < 0 \<longrightarrow> str_int cnt = CHR ''-'' # str_int (- cnt)"
    by (simp add: str_int_def)
  from part1 part2 part3 part4 part5 part6 show ?thesis by (intro conjI)
qed

theorem items_sorted_witness:
  "dict_ok (priv_categories tSheet) \<and>
   (\<exists>rows. itemsSortedByCategory tSheet = Inr (render_rows rows) \<and>
      mset rows = mset (dict_items (priv_categories tSheet)) \<and> sorted (map fst rows)) \<and>
   (\<exists>rows. itemsSortedByCount tSheet = render_rows rows \<and>
      mset rows = mset (dict_items (priv_categories tSheet)) \<and> sorted (map snd rows)) \<and>
   itemsSortedByCategory tSheet
     = Inr (render_rows [(''blue jay'', 4), (''cardinal'', 3), (''robin'', 5), (''sparrow'', 10)]) \<and>
   itemsSortedByCount tSheet
     = render_rows [(''cardinal'', 3), (''blue jay'', 4), (''robin'', 5), (''sparrow'', 10)]"
proof -
  have ok: "dict_ok (priv_categories tSheet)"
    by (simp add: tSheet_categories dict_ok_def)
  have cat: "itemsSortedByCategory tSheet
     = Inr (render_rows [(''blue jay'', 4), (''cardinal'', 3), (''robin'', 5), (''sparrow'', 10)])"
    by (simp add: itemsSortedByCategory_def tSheet_categories dict_keys_def render_rows_def)
  have cnt: "itemsSortedByCount tSheet
     = render_rows [(''cardinal'', 3), (''blue jay'', 4), (''robin'', 5), (''sparrow'', 10)]"
    by (simp add: itemsSortedByCount_def tSheet_categories dict_items_def render_rows_def)
  from items_sorted [OF ok] have
    "(\<exists>rows. itemsSortedByCategory tSheet = Inr (render_rows rows) \<and>
      mset rows = mset (dict_items (priv_categories tSheet)) \<and> sorted (map fst rows)) \<and>
     (\<exists>rows. itemsSortedByCount tSheet = render_rows rows \<and>
      mset rows = mset (dict_items (priv_categories tSheet)) \<and> sorted (map snd rows))"
    by blast
  with ok cat cnt show ?thesis by (intro conjI) (elim conjE, assumption)+
qed

end
